theory Spec2Isabelle
  imports Main "HOL-Library.Word"
begin

section \<open>Bytes, hashes and the integer codec\<close>

text \<open>
  A Go \<open>[]byte\<close> is a list of 8-bit words. A Go \<open>string\<close> that is only ever appended to a
  byte slice (the addresses) is the list of its bytes. Namespaces are only compared, they are
  Isabelle strings. \<open>append(prefix, x...)\<close> is list concatenation: the result is read as a
  fresh slice.
\<close>

type_synonym byte = "8 word"
type_synonym bytes = "byte list"

text \<open>\<open>hash.Hash32B\<close> is \<open>[32]byte\<close>: the length is part of the type.\<close>

typedef Hash32B = "{bs :: bytes. length bs = 32}"
  by (rule exI [of _ "replicate 32 0"]) simp

text \<open>\<open>hash.ZeroHash32B\<close>; \<open>h[:]\<close> is \<open>Rep_Hash32B h\<close>.\<close>

definition ZeroHash32B :: Hash32B where
  "ZeroHash32B = Abs_Hash32B (replicate 32 0)"

text \<open>
  \<open>copy(dst[:], src)\<close> of Go: the first \<open>min (len dst) (len src)\<close> bytes of \<open>dst\<close> are
  overwritten, the rest of \<open>dst\<close> stays.
\<close>

definition copy_Hash32B :: "Hash32B \<Rightarrow> bytes \<Rightarrow> Hash32B" where
  "copy_Hash32B dst src = Abs_Hash32B (take 32 src @ drop (length src) (Rep_Hash32B dst))"

text \<open>
  Modelled from the spec: \<open>byteutil.Uint64ToBytes\<close> and \<open>enc.MachineEndian.Uint64\<close> are not
  under src/. The spec fixes an 8-byte fixed-width encoding in a single endianness, the same
  on read and write; little-endian is taken here. Decoding reads the first eight bytes and,
  as Go's \<open>binary.ByteOrder.Uint64\<close>, panics on a shorter slice: that is \<open>None\<close>.
\<close>

fun le_bytes :: "nat \<Rightarrow> nat \<Rightarrow> bytes" where
  "le_bytes 0 n = []"
| "le_bytes (Suc k) n = of_nat n # le_bytes k (n div 256)"

fun le_value :: "bytes \<Rightarrow> nat" where
  "le_value [] = 0"
| "le_value (b # bs) = unat b + 256 * le_value bs"

definition Uint64ToBytes :: "64 word \<Rightarrow> bytes" where
  "Uint64ToBytes v = le_bytes 8 (unat v)"

definition Uint64 :: "bytes \<Rightarrow> 64 word option" where
  "Uint64 b = (if length b < 8 then None else Some (of_nat (le_value (take 8 b))))"


section \<open>Errors\<close>

text \<open>
  \<open>db.ErrNotExist\<close>, \<open>db.ErrAlreadyExist\<close>, any other failure of the store (\<open>ErrIO\<close>),
  \<open>errors.New\<close>, and an error wrapped with a message. \<open>errors.Wrap\<close> and \<open>errors.Wrapf\<close> of
  github.com/pkg/errors return \<open>nil\<close> when the error they are given is \<open>nil\<close>. The format
  arguments of \<open>Wrapf\<close> are not kept, the format string is.
\<close>

datatype error =
    ErrNotExist
  | ErrAlreadyExist
  | ErrIO
  | New string
  | Wrapped error string

fun errors_Wrap :: "error option \<Rightarrow> string \<Rightarrow> error option" where
  "errors_Wrap None msg = None"
| "errors_Wrap (Some err) msg = Some (Wrapped err msg)"


section \<open>The key-value store\<close>

text \<open>
  Modelled from the spec: the \<open>db\<close> package (\<open>KVStore\<close>, \<open>KVStoreBatch\<close>) is not under src/.
  The spec's contract: \<open>get(namespace, key)\<close> gives the value or missing;
  \<open>putIfNotExists\<close> gives ok, already-exists or an error; a batch is a staged sequence of
  \<open>put\<close> and \<open>putIfNotExists\<close> operations, each with a failure message, and \<open>commit\<close> applies
  it atomically or fails as a whole leaving the store unchanged. The spec describes a staged
  conditional insert that meets a present key as colliding safely: the commit goes through and
  the present value stays (re-putting a block "is a no-op up to counter bumps").

  Backend failures are part of the store's state: the reads and direct writes that fail, and
  whether a commit fails.
\<close>

record kvstore =
  kv_data :: "string \<times> bytes \<Rightarrow> bytes option"
  kv_get_fault :: "string \<times> bytes \<Rightarrow> bool"
  kv_put_fault :: "string \<times> bytes \<Rightarrow> bool"
  kv_commit_fault :: bool

definition kv_Get :: "kvstore \<Rightarrow> string \<Rightarrow> bytes \<Rightarrow> error + bytes" where
  "kv_Get s ns key =
     (if kv_get_fault s (ns, key) then Inl ErrIO
      else case kv_data s (ns, key) of None \<Rightarrow> Inl ErrNotExist | Some v \<Rightarrow> Inr v)"

definition kv_PutIfNotExists ::
  "kvstore \<Rightarrow> string \<Rightarrow> bytes \<Rightarrow> bytes \<Rightarrow> kvstore \<times> error option" where
  "kv_PutIfNotExists s ns key v =
     (if kv_put_fault s (ns, key) then (s, Some ErrIO)
      else if kv_data s (ns, key) \<noteq> None then (s, Some ErrAlreadyExist)
      else (s\<lparr>kv_data := (kv_data s)((ns, key) \<mapsto> v)\<rparr>, None))"

text \<open>A staged write: namespace, key, value, failure message.\<close>

datatype kvwrite =
    Put string bytes bytes string
  | PutIfNotExists string bytes bytes string

type_synonym batch = "kvwrite list"

fun apply_write :: "(string \<times> bytes \<Rightarrow> bytes option) \<Rightarrow> kvwrite \<Rightarrow> (string \<times> bytes \<Rightarrow> bytes option)" where
  "apply_write d (Put ns k v msg) = d((ns, k) \<mapsto> v)"
| "apply_write d (PutIfNotExists ns k v msg) = (if d (ns, k) = None then d((ns, k) \<mapsto> v) else d)"

definition kv_Commit :: "kvstore \<Rightarrow> batch \<Rightarrow> kvstore \<times> error option" where
  "kv_Commit s b =
     (if kv_commit_fault s then (s, Some ErrIO)
      else (s\<lparr>kv_data := foldl apply_write (kv_data s) b\<rparr>, None))"


section \<open>Schema\<close>

definition blockNS :: string where "blockNS = ''blocks''"
definition blockHashHeightMappingNS :: string where "blockHashHeightMappingNS = ''hash<->height''"
definition blockTransferBlockMappingNS :: string where "blockTransferBlockMappingNS = ''transfer<->block''"
definition blockVoteBlockMappingNS :: string where "blockVoteBlockMappingNS = ''vote<->block''"
definition blockAddressTransferMappingNS :: string where "blockAddressTransferMappingNS = ''address<->transfer''"
definition blockAddressTransferCountMappingNS :: string where "blockAddressTransferCountMappingNS = ''address<->transfercount''"
definition blockAddressVoteMappingNS :: string where "blockAddressVoteMappingNS = ''address<->vote''"
definition blockAddressVoteCountMappingNS :: string where "blockAddressVoteCountMappingNS = ''address<->votecount''"

definition hashPrefix :: bytes where "hashPrefix = map of_char ''hash.''"
definition transferPrefix :: bytes where "transferPrefix = map of_char ''transfer.''"
definition votePrefix :: bytes where "votePrefix = map of_char ''vote.''"
definition heightPrefix :: bytes where "heightPrefix = map of_char ''height.''"
definition topHeightKey :: bytes where "topHeightKey = map of_char ''top-height''"
definition totalTransfersKey :: bytes where "totalTransfersKey = map of_char ''total-transfers''"
definition totalVotesKey :: bytes where "totalVotesKey = map of_char ''total-votes''"
definition transferFromPrefix :: bytes where "transferFromPrefix = map of_char ''transfer-from.''"
definition transferToPrefix :: bytes where "transferToPrefix = map of_char ''transfer-to.''"
definition voteFromPrefix :: bytes where "voteFromPrefix = map of_char ''vote-from.''"
definition voteToPrefix :: bytes where "voteToPrefix = map of_char ''vote-to.''"


section \<open>Blocks, transfers and votes\<close>

text \<open>
  Modelled from the spec: \<open>Block\<close>, \<open>Transfer\<close> and \<open>Vote\<close> are collaborators that are not under
  src/. What the DAO reads of them is a field here: the results of \<open>Hash()\<close>, \<open>Height()\<close>,
  \<open>Serialize()\<close> and \<open>HashBlock()\<close>, the parties, and the two ordered lists.
\<close>

record Transfer =
  transfer_Hash :: Hash32B
  Sender :: bytes
  Recipient :: bytes

record Vote =
  vote_Hash :: Hash32B
  SelfPubkey :: bytes
  VotePubkey :: bytes

record Block =
  Height :: "64 word"
  Serialize :: "error + bytes"
  HashBlock :: Hash32B
  Transfers :: "Transfer list"
  Votes :: "Vote list"


section \<open>Lifecycle\<close>

text \<open>
  \<open>Start\<close>: the first argument is what \<open>lifecycle.OnStart\<close> returned. \<open>make([]byte, 8)\<close> is
  eight zero bytes.
\<close>

definition Start :: "error option \<Rightarrow> kvstore \<Rightarrow> kvstore \<times> error option" where
  "Start onStart s =
     (case onStart of
        Some err \<Rightarrow> (s, errors_Wrap (Some err) ''failed to start child services'')
      | None \<Rightarrow>
         (case kv_PutIfNotExists s blockNS topHeightKey (replicate 8 0) of
            (s1, Some err) \<Rightarrow>
              if err = ErrAlreadyExist then (s1, None)
              else (s1, errors_Wrap (Some err) ''failed to write initial value for top height'')
          | (s1, None) \<Rightarrow>
             (case kv_PutIfNotExists s1 blockNS totalTransfersKey (replicate 8 0) of
                (s2, Some err) \<Rightarrow>
                  (s2, errors_Wrap (Some err) ''failed to write initial value for total transfers'')
              | (s2, None) \<Rightarrow>
                 (case kv_PutIfNotExists s2 blockNS totalVotesKey (replicate 8 0) of
                    (s3, Some err) \<Rightarrow>
                      (s3, errors_Wrap (Some err) ''failed to write initial value for total votes'')
                  | (s3, None) \<Rightarrow> (s3, None)))))"


section \<open>Read API\<close>

text \<open>
  A reader returns the pair (value, error) of the Go function. Where the Go function can
  panic (decoding a value shorter than eight bytes), the result is an option and \<open>None\<close> is
  the panic. A \<open>nil\<close> slice is the empty list.
\<close>

definition getBlockHash :: "kvstore \<Rightarrow> 64 word \<Rightarrow> Hash32B \<times> error option" where
  "getBlockHash s height =
     (let key = heightPrefix @ Uint64ToBytes height in
      case kv_Get s blockHashHeightMappingNS key of
        Inl err \<Rightarrow> (ZeroHash32B, errors_Wrap (Some err) ''failed to get block hash'')
      | Inr value \<Rightarrow>
          if 32 \<noteq> length value then (ZeroHash32B, errors_Wrap None ''blockhash is broken'')
          else (copy_Hash32B ZeroHash32B value, None))"

definition getTransferCountBySenderAddress ::
  "kvstore \<Rightarrow> bytes \<Rightarrow> (64 word \<times> error option) option" where
  "getTransferCountBySenderAddress s address =
     (let senderTransferCountKey = transferFromPrefix @ address in
      case kv_Get s blockAddressTransferCountMappingNS senderTransferCountKey of
        Inl err \<Rightarrow> Some (0, None)
      | Inr value \<Rightarrow>
          if length value = 0 then Some (0, Some (New ''count of transfers as recipient is broken''))
          else (case Uint64 value of None \<Rightarrow> None | Some n \<Rightarrow> Some (n, None)))"

definition getTransferCountByRecipientAddress ::
  "kvstore \<Rightarrow> bytes \<Rightarrow> (64 word \<times> error option) option" where
  "getTransferCountByRecipientAddress s address =
     (let recipientTransferCountKey = transferToPrefix @ address in
      case kv_Get s blockAddressTransferCountMappingNS recipientTransferCountKey of
        Inl err \<Rightarrow> Some (0, None)
      | Inr value \<Rightarrow>
          if length value = 0 then Some (0, Some (New ''count of transfers as recipient is broken''))
          else (case Uint64 value of None \<Rightarrow> None | Some n \<Rightarrow> Some (n, None)))"

definition getVoteCountBySenderAddress ::
  "kvstore \<Rightarrow> bytes \<Rightarrow> (64 word \<times> error option) option" where
  "getVoteCountBySenderAddress s address =
     (let senderVoteCountKey = voteFromPrefix @ address in
      case kv_Get s blockAddressVoteCountMappingNS senderVoteCountKey of
        Inl err \<Rightarrow> Some (0, None)
      | Inr value \<Rightarrow>
          if length value = 0 then Some (0, Some (New ''count of votes as sender is broken''))
          else (case Uint64 value of None \<Rightarrow> None | Some n \<Rightarrow> Some (n, None)))"

definition getVoteCountByRecipientAddress ::
  "kvstore \<Rightarrow> bytes \<Rightarrow> (64 word \<times> error option) option" where
  "getVoteCountByRecipientAddress s address =
     (let recipientVoteCountKey = voteToPrefix @ address in
      case kv_Get s blockAddressVoteCountMappingNS recipientVoteCountKey of
        Inl err \<Rightarrow> Some (0, None)
      | Inr value \<Rightarrow>
          if length value = 0 then Some (0, Some (New ''count of votes as recipient is broken''))
          else (case Uint64 value of None \<Rightarrow> None | Some n \<Rightarrow> Some (n, None)))"

text \<open>
  The loop of \<open>getTransfersByAddress\<close>, from index \<open>i\<close> with the hashes collected so far. The
  index is a \<open>uint64\<close> below \<open>count\<close>, so \<open>i++\<close> does not wrap.
\<close>

function getTransfersByAddress_loop ::
  "kvstore \<Rightarrow> bytes \<Rightarrow> 64 word \<Rightarrow> bytes \<Rightarrow> 64 word \<Rightarrow> Hash32B list \<Rightarrow> Hash32B list \<times> error option" where
  "getTransfersByAddress_loop s address count keyPrefix i res =
     (if i < count then
        (let key = keyPrefix @ address;
             key = key @ Uint64ToBytes i in
         case kv_Get s blockAddressTransferMappingNS key of
           Inl err \<Rightarrow> (res, errors_Wrap (Some err) ''failed to get transfer for index %x'')
         | Inr value \<Rightarrow>
             if length value = 0
             then (res, errors_Wrap (Some ErrNotExist) ''transfer for index %x missing'')
             else getTransfersByAddress_loop s address count keyPrefix (i + 1)
                    (res @ [copy_Hash32B ZeroHash32B value]))
      else (res, None))"
  by pat_completeness auto
termination
proof (relation "measure (\<lambda>(s, address, count, keyPrefix, i, res). unat count - unat i)")
  show "wf (measure (\<lambda>(s, address, count, keyPrefix, i, res). unat count - unat i))"
    by simp
next
  fix s :: kvstore and address keyPrefix :: bytes and count i :: "64 word"
    and res :: "Hash32B list" and x xa :: bytes and x2 :: bytes
  assume "i < count"
  then have lt: "unat i < unat count"
    by (simp add: word_less_nat_alt)
  moreover have "unat count < 2 ^ LENGTH(64)"
    by (rule unsigned_less)
  ultimately have "unat i + unat (1 :: 64 word) < 2 ^ LENGTH(64)"
    by simp
  then have "unat (i + 1) = unat i + unat (1 :: 64 word)"
    by (simp only: unat_add_lem)
  with lt have "unat (i + 1) = Suc (unat i)" and "unat i < unat count"
    by simp_all
  then show "((s, address, count, keyPrefix, i + 1, res @ [copy_Hash32B ZeroHash32B x2]),
              (s, address, count, keyPrefix, i, res))
             \<in> measure (\<lambda>(s, address, count, keyPrefix, i, res). unat count - unat i)"
    by simp
qed

declare getTransfersByAddress_loop.simps [simp del]

definition getTransfersByAddress ::
  "kvstore \<Rightarrow> bytes \<Rightarrow> 64 word \<Rightarrow> bytes \<Rightarrow> Hash32B list \<times> error option" where
  "getTransfersByAddress s address count keyPrefix =
     getTransfersByAddress_loop s address count keyPrefix 0 []"

text \<open>The loop of \<open>getVotesByAddress\<close>, in the same way.\<close>

function getVotesByAddress_loop ::
  "kvstore \<Rightarrow> bytes \<Rightarrow> 64 word \<Rightarrow> bytes \<Rightarrow> 64 word \<Rightarrow> Hash32B list \<Rightarrow> Hash32B list \<times> error option" where
  "getVotesByAddress_loop s address count keyPrefix i res =
     (if i < count then
        (let key = keyPrefix @ address;
             key = key @ Uint64ToBytes i in
         case kv_Get s blockAddressVoteMappingNS key of
           Inl err \<Rightarrow> (res, errors_Wrap (Some err) ''failed to get vote for index %x'')
         | Inr value \<Rightarrow>
             if length value = 0
             then (res, errors_Wrap (Some ErrNotExist) ''vote for index %x missing'')
             else getVotesByAddress_loop s address count keyPrefix (i + 1)
                    (res @ [copy_Hash32B ZeroHash32B value]))
      else (res, None))"
  by pat_completeness auto
termination
proof (relation "measure (\<lambda>(s, address, count, keyPrefix, i, res). unat count - unat i)")
  show "wf (measure (\<lambda>(s, address, count, keyPrefix, i, res). unat count - unat i))"
    by simp
next
  fix s :: kvstore and address keyPrefix :: bytes and count i :: "64 word"
    and res :: "Hash32B list" and x xa :: bytes and x2 :: bytes
  assume "i < count"
  then have lt: "unat i < unat count"
    by (simp add: word_less_nat_alt)
  moreover have "unat count < 2 ^ LENGTH(64)"
    by (rule unsigned_less)
  ultimately have "unat i + unat (1 :: 64 word) < 2 ^ LENGTH(64)"
    by simp
  then have "unat (i + 1) = unat i + unat (1 :: 64 word)"
    by (simp only: unat_add_lem)
  with lt have "unat (i + 1) = Suc (unat i)" and "unat i < unat count"
    by simp_all
  then show "((s, address, count, keyPrefix, i + 1, res @ [copy_Hash32B ZeroHash32B x2]),
              (s, address, count, keyPrefix, i, res))
             \<in> measure (\<lambda>(s, address, count, keyPrefix, i, res). unat count - unat i)"
    by simp
qed

declare getVotesByAddress_loop.simps [simp del]

definition getVotesByAddress ::
  "kvstore \<Rightarrow> bytes \<Rightarrow> 64 word \<Rightarrow> bytes \<Rightarrow> Hash32B list \<times> error option" where
  "getVotesByAddress s address count keyPrefix =
     getVotesByAddress_loop s address count keyPrefix 0 []"


definition getTransfersBySenderAddress ::
  "kvstore \<Rightarrow> bytes \<Rightarrow> (Hash32B list \<times> error option) option" where
  "getTransfersBySenderAddress s address =
     (case getTransferCountBySenderAddress s address of
        None \<Rightarrow> None
      | Some (senderTransferCount, Some err) \<Rightarrow> Some ([], errors_Wrap (Some err) ''for sender %x'')
      | Some (senderTransferCount, None) \<Rightarrow>
         (case getTransfersByAddress s address senderTransferCount transferFromPrefix of
            (res, Some getTransfersErr) \<Rightarrow> Some ([], Some getTransfersErr)
          | (res, None) \<Rightarrow> Some (res, None)))"

definition getTransfersByRecipientAddress ::
  "kvstore \<Rightarrow> bytes \<Rightarrow> (Hash32B list \<times> error option) option" where
  "getTransfersByRecipientAddress s address =
     (case getTransferCountByRecipientAddress s address of
        None \<Rightarrow> None
      | Some (recipientTransferCount, Some getCountErr) \<Rightarrow>
          Some ([], errors_Wrap (Some getCountErr) ''for recipient %x'')
      | Some (recipientTransferCount, None) \<Rightarrow>
         (case getTransfersByAddress s address recipientTransferCount transferToPrefix of
            (res, Some getTransfersErr) \<Rightarrow> Some ([], Some getTransfersErr)
          | (res, None) \<Rightarrow> Some (res, None)))"

definition getVotesBySenderAddress ::
  "kvstore \<Rightarrow> bytes \<Rightarrow> (Hash32B list \<times> error option) option" where
  "getVotesBySenderAddress s address =
     (case getVoteCountBySenderAddress s address of
        None \<Rightarrow> None
      | Some (senderVoteCount, Some err) \<Rightarrow>
          Some ([], errors_Wrap (Some err) ''to get votecount for sender %x'')
      | Some (senderVoteCount, None) \<Rightarrow>
         (case getVotesByAddress s address senderVoteCount voteFromPrefix of
            (res, Some err) \<Rightarrow> Some ([], errors_Wrap (Some err) ''to get votes for sender %x'')
          | (res, None) \<Rightarrow> Some (res, None)))"

definition getVotesByRecipientAddress ::
  "kvstore \<Rightarrow> bytes \<Rightarrow> (Hash32B list \<times> error option) option" where
  "getVotesByRecipientAddress s address =
     (case getVoteCountByRecipientAddress s address of
        None \<Rightarrow> None
      | Some (recipientVoteCount, Some err) \<Rightarrow>
          Some ([], errors_Wrap (Some err) ''to get votecount for recipient %x'')
      | Some (recipientVoteCount, None) \<Rightarrow>
         (case getVotesByAddress s address recipientVoteCount voteToPrefix of
            (res, Some err) \<Rightarrow> Some ([], errors_Wrap (Some err) ''to get votes for recipient %x'')
          | (res, None) \<Rightarrow> Some (res, None)))"

definition getBlockchainHeight :: "kvstore \<Rightarrow> (64 word \<times> error option) option" where
  "getBlockchainHeight s =
     (case kv_Get s blockNS topHeightKey of
        Inl err \<Rightarrow> Some (0, errors_Wrap (Some err) ''failed to get top height'')
      | Inr value \<Rightarrow>
          if length value = 0 then Some (0, errors_Wrap (Some ErrNotExist) ''blockchain height missing'')
          else (case Uint64 value of None \<Rightarrow> None | Some n \<Rightarrow> Some (n, None)))"

definition getTotalTransfers :: "kvstore \<Rightarrow> (64 word \<times> error option) option" where
  "getTotalTransfers s =
     (case kv_Get s blockNS totalTransfersKey of
        Inl err \<Rightarrow> Some (0, errors_Wrap (Some err) ''failed to get total transfers'')
      | Inr value \<Rightarrow>
          if length value = 0 then Some (0, errors_Wrap (Some ErrNotExist) ''total transfers missing'')
          else (case Uint64 value of None \<Rightarrow> None | Some n \<Rightarrow> Some (n, None)))"

definition getTotalVotes :: "kvstore \<Rightarrow> (64 word \<times> error option) option" where
  "getTotalVotes s =
     (case kv_Get s blockNS totalVotesKey of
        Inl err \<Rightarrow> Some (0, errors_Wrap (Some err) ''failed to get total votes'')
      | Inr value \<Rightarrow>
          if length value = 0 then Some (0, errors_Wrap (Some ErrNotExist) ''total votes missing'')
          else (case Uint64 value of None \<Rightarrow> None | Some n \<Rightarrow> Some (n, None)))"


section \<open>Write API\<close>

text \<open>
  The in-batch delta of \<open>putTransfers\<close> and \<open>putVotes\<close>; the source writes this if/else four
  times, on \<open>senderDelta\<close> and \<open>recipientDelta\<close> of each function:
  \<^verbatim>\<open>if delta, ok := m[a]; ok { count += delta; m[a] = m[a] + 1 } else { m[a] = 1 }\<close>.
  The result is the count to use and the updated map.
\<close>

definition apply_delta ::
  "(bytes \<Rightarrow> 64 word option) \<Rightarrow> bytes \<Rightarrow> 64 word \<Rightarrow> 64 word \<times> (bytes \<Rightarrow> 64 word option)" where
  "apply_delta m a count =
     (case m a of
        Some delta \<Rightarrow> (count + delta, m(a \<mapsto> delta + 1))
      | None \<Rightarrow> (count, m(a \<mapsto> 1)))"

text \<open>
  The loop of \<open>putTransfers\<close> over the remaining transfers. The batch is passed and returned;
  the counters are read from the store, which the staged writes have not reached.
\<close>

fun putTransfers_loop ::
  "kvstore \<Rightarrow> Transfer list \<Rightarrow> (bytes \<Rightarrow> 64 word option) \<Rightarrow> (bytes \<Rightarrow> 64 word option) \<Rightarrow> batch
     \<Rightarrow> (batch \<times> error option) option" where
  "putTransfers_loop s [] senderDelta recipientDelta batch = Some (batch, None)"
| "putTransfers_loop s (transfer # rest) senderDelta recipientDelta batch =
     (let transferHash = transfer_Hash transfer in
      case getTransferCountBySenderAddress s (Sender transfer) of
        None \<Rightarrow> None
      | Some (c, Some err) \<Rightarrow> Some (batch, errors_Wrap (Some err) ''for sender %x'')
      | Some (c, None) \<Rightarrow>
         (let (senderTransferCount, senderDelta) = apply_delta senderDelta (Sender transfer) c;
              senderKey = transferFromPrefix @ Sender transfer;
              senderKey = senderKey @ Uint64ToBytes senderTransferCount;
              batch = batch @ [PutIfNotExists blockAddressTransferMappingNS senderKey
                         (Rep_Hash32B transferHash) ''failed to put transfer hash %x for sender %x''];
              senderTransferCountKey = transferFromPrefix @ Sender transfer;
              batch = batch @ [Put blockAddressTransferCountMappingNS senderTransferCountKey
                         (Uint64ToBytes (senderTransferCount + 1))
                         ''failed to bump transfer count %x for sender %x'']
          in case getTransferCountByRecipientAddress s (Recipient transfer) of
               None \<Rightarrow> None
             | Some (c, Some err) \<Rightarrow> Some (batch, errors_Wrap (Some err) ''for recipient %x'')
             | Some (c, None) \<Rightarrow>
                (let (recipientTransferCount, recipientDelta) =
                       apply_delta recipientDelta (Recipient transfer) c;
                     recipientKey = transferToPrefix @ Recipient transfer;
                     recipientKey = recipientKey @ Uint64ToBytes recipientTransferCount;
                     batch = batch @ [PutIfNotExists blockAddressTransferMappingNS recipientKey
                                (Rep_Hash32B transferHash)
                                ''failed to put transfer hash %x for recipient %x''];
                     recipientTransferCountKey = transferToPrefix @ Recipient transfer;
                     batch = batch @ [Put blockAddressTransferCountMappingNS recipientTransferCountKey
                                (Uint64ToBytes (recipientTransferCount + 1))
                                ''failed to bump transfer count %x for recipient %x'']
                 in putTransfers_loop s rest senderDelta recipientDelta batch)))"

definition putTransfers :: "kvstore \<Rightarrow> Block \<Rightarrow> batch \<Rightarrow> (batch \<times> error option) option" where
  "putTransfers s blk batch = putTransfers_loop s (Transfers blk) Map.empty Map.empty batch"

text \<open>
  \<open>putVotes\<close>. Its first argument is the address derivation,
  \<open>iotxaddress.GetAddress(pubkey, IsTestnet, ChainID)\<close>, a collaborator that is not under
  src/: it gives the raw address or an error. The source's locals \<open>Sender\<close> and \<open>Recipient\<close>
  are \<open>sender\<close> and \<open>recipient\<close> here.
\<close>

fun putVotes_loop ::
  "(bytes \<Rightarrow> error + bytes) \<Rightarrow> kvstore \<Rightarrow> Vote list \<Rightarrow> (bytes \<Rightarrow> 64 word option)
     \<Rightarrow> (bytes \<Rightarrow> 64 word option) \<Rightarrow> batch \<Rightarrow> (batch \<times> error option) option" where
  "putVotes_loop GetAddress s [] senderDelta recipientDelta batch = Some (batch, None)"
| "putVotes_loop GetAddress s (vote # rest) senderDelta recipientDelta batch =
     (let voteHash = vote_Hash vote in
      case GetAddress (SelfPubkey vote) of
        Inl err \<Rightarrow> Some (batch, errors_Wrap (Some err) '' to get sender address for pubkey %x'')
      | Inr sender \<Rightarrow>
       (case GetAddress (VotePubkey vote) of
          Inl err \<Rightarrow> Some (batch, errors_Wrap (Some err) '' to get recipient address for pubkey %x'')
        | Inr recipient \<Rightarrow>
         (case getVoteCountBySenderAddress s sender of
            None \<Rightarrow> None
          | Some (c, Some err) \<Rightarrow> Some (batch, errors_Wrap (Some err) ''for sender %x'')
          | Some (c, None) \<Rightarrow>
             (let (senderVoteCount, senderDelta) = apply_delta senderDelta sender c;
                  senderKey = voteFromPrefix @ sender;
                  senderKey = senderKey @ Uint64ToBytes senderVoteCount;
                  batch = batch @ [PutIfNotExists blockAddressVoteMappingNS senderKey
                             (Rep_Hash32B voteHash) ''failed to put vote hash %x for sender %x''];
                  senderVoteCountKey = voteFromPrefix @ sender;
                  batch = batch @ [Put blockAddressVoteCountMappingNS senderVoteCountKey
                             (Uint64ToBytes (senderVoteCount + 1))
                             ''failed to bump vote count %x for sender %x'']
              in case getVoteCountByRecipientAddress s recipient of
                   None \<Rightarrow> None
                 | Some (c, Some err) \<Rightarrow> Some (batch, errors_Wrap (Some err) ''for recipient %x'')
                 | Some (c, None) \<Rightarrow>
                    (let (recipientVoteCount, recipientDelta) =
                           apply_delta recipientDelta recipient c;
                         recipientKey = voteToPrefix @ recipient;
                         recipientKey = recipientKey @ Uint64ToBytes recipientVoteCount;
                         batch = batch @ [PutIfNotExists blockAddressVoteMappingNS recipientKey
                                    (Rep_Hash32B voteHash)
                                    ''failed to put vote hash %x for recipient %x''];
                         recipientVoteCountKey = voteToPrefix @ recipient;
                         batch = batch @ [Put blockAddressVoteCountMappingNS recipientVoteCountKey
                                    (Uint64ToBytes (recipientVoteCount + 1))
                                    ''failed to bump vote count %x for recipient %x'']
                     in putVotes_loop GetAddress s rest senderDelta recipientDelta batch)))))"

definition putVotes ::
  "(bytes \<Rightarrow> error + bytes) \<Rightarrow> kvstore \<Rightarrow> Block \<Rightarrow> batch \<Rightarrow> (batch \<times> error option) option" where
  "putVotes GetAddress s blk batch =
     putVotes_loop GetAddress s (Votes blk) Map.empty Map.empty batch"

text \<open>
  \<open>putBlock\<close>: the new store and the returned error, or \<open>None\<close> for a panic (which is raised
  before \<open>Commit\<close>, so leaves the store as it was). \<open>uint64(len(xs))\<close> is \<open>of_nat (length xs)\<close>.
  \<open>putBlock_stage\<close> is the body up to \<open>batch.Commit()\<close>: the staged batch, or the error of an
  early return.
\<close>

definition putBlock_stage ::
  "(bytes \<Rightarrow> error + bytes) \<Rightarrow> kvstore \<Rightarrow> Block \<Rightarrow> (batch \<times> error option) option" where
  "putBlock_stage GetAddress s blk =
     (let batch = [];
          height = Uint64ToBytes (Height blk) in
      case Serialize blk of
        Inl err \<Rightarrow> Some (batch, errors_Wrap (Some err) ''failed to serialize block'')
      | Inr serialized \<Rightarrow>
       (let hash = HashBlock blk;
            batch = batch @ [PutIfNotExists blockNS (Rep_Hash32B hash) serialized ''failed to put block''];
            hashKey = hashPrefix @ Rep_Hash32B hash;
            batch = batch @ [Put blockHashHeightMappingNS hashKey height
                       ''failed to put hash -> height mapping''];
            heightKey = heightPrefix @ height;
            batch = batch @ [Put blockHashHeightMappingNS heightKey (Rep_Hash32B hash)
                       ''failed to put height -> hash mapping'']
        in case kv_Get s blockNS topHeightKey of
             Inl err \<Rightarrow> Some (batch, errors_Wrap (Some err) ''failed to get top height'')
           | Inr value \<Rightarrow>
            (case Uint64 value of
               None \<Rightarrow> None
             | Some topHeight \<Rightarrow>
              (let batch = (if Height blk > topHeight
                            then batch @ [Put blockNS topHeightKey height ''failed to put top height'']
                            else batch)
               in case kv_Get s blockNS totalTransfersKey of
                    Inl err \<Rightarrow> Some (batch, errors_Wrap (Some err) ''failed to get total transfers'')
                  | Inr value \<Rightarrow>
                   (case Uint64 value of
                      None \<Rightarrow> None
                    | Some totalTransfers \<Rightarrow>
                     (let totalTransfers = totalTransfers + of_nat (length (Transfers blk));
                          totalTransfersBytes = Uint64ToBytes totalTransfers;
                          batch = batch @ [Put blockNS totalTransfersKey totalTransfersBytes
                                     ''failed to put total transfers'']
                      in case kv_Get s blockNS totalVotesKey of
                           Inl err \<Rightarrow> Some (batch, errors_Wrap (Some err) ''failed to get total votes'')
                         | Inr value \<Rightarrow>
                          (case Uint64 value of
                             None \<Rightarrow> None
                           | Some totalVotes \<Rightarrow>
                            (let totalVotes = totalVotes + of_nat (length (Votes blk));
                                 totalVotesBytes = Uint64ToBytes totalVotes;
                                 batch = batch @ [Put blockNS totalVotesKey totalVotesBytes
                                            ''failed to put total votes''];
                                 batch = batch @ map (\<lambda>transfer.
                                            Put blockTransferBlockMappingNS
                                              (transferPrefix @ Rep_Hash32B (transfer_Hash transfer))
                                              (Rep_Hash32B hash) ''failed to put transfer hash %x'')
                                            (Transfers blk);
                                 batch = batch @ map (\<lambda>vote.
                                            Put blockVoteBlockMappingNS
                                              (votePrefix @ Rep_Hash32B (vote_Hash vote))
                                              (Rep_Hash32B hash) ''failed to put vote hash %x'')
                                            (Votes blk)
                             in case putTransfers s blk batch of
                                  None \<Rightarrow> None
                                | Some (batch, Some err) \<Rightarrow> Some (batch, Some err)
                                | Some (batch, None) \<Rightarrow>
                                   (case putVotes GetAddress s blk batch of
                                      None \<Rightarrow> None
                                    | Some (batch, Some err) \<Rightarrow> Some (batch, Some err)
                                    | Some (batch, None) \<Rightarrow> Some (batch, None))))))))))"

definition putBlock ::
  "(bytes \<Rightarrow> error + bytes) \<Rightarrow> kvstore \<Rightarrow> Block \<Rightarrow> (kvstore \<times> error option) option" where
  "putBlock GetAddress s blk =
     (case putBlock_stage GetAddress s blk of
        None \<Rightarrow> None
      | Some (batch, Some err) \<Rightarrow> Some (s, Some err)
      | Some (batch, None) \<Rightarrow>
         (case kv_Commit s batch of
            (s', Some err) \<Rightarrow> Some (s', Some err)
          | (s', None) \<Rightarrow> Some (s', None)))"

text \<open>
  A sequence of \<open>putBlock\<close> calls, each on the store the one before left: the final store when
  every call returned without an error, \<open>None\<close> as soon as one returned an error or panicked.
\<close>

fun putBlocks :: "(bytes \<Rightarrow> error + bytes) \<Rightarrow> kvstore \<Rightarrow> Block list \<Rightarrow> kvstore option" where
  "putBlocks GetAddress s [] = Some s"
| "putBlocks GetAddress s (blk # blks) =
     (case putBlock GetAddress s blk of
        Some (s', None) \<Rightarrow> putBlocks GetAddress s' blks
      | _ \<Rightarrow> None)"


section \<open>Concrete stores and blocks\<close>

text \<open>The inputs at which the theorems below are instantiated.\<close>

definition empty_store :: kvstore where
  "empty_store = \<lparr>kv_data = (\<lambda>_. None), kv_get_fault = (\<lambda>_. False),
     kv_put_fault = (\<lambda>_. False), kv_commit_fault = False\<rparr>"

definition started_store :: kvstore where
  "started_store = fst (Start None empty_store)"

definition hash_of_byte :: "byte \<Rightarrow> Hash32B" where
  "hash_of_byte b = Abs_Hash32B (replicate 32 b)"

definition corrupt_height_store :: kvstore where
  "corrupt_height_store = empty_store\<lparr>kv_data :=
     (kv_data empty_store)((blockHashHeightMappingNS, heightPrefix @ Uint64ToBytes 5) \<mapsto> replicate 7 1)\<rparr>"

definition identity_address :: "bytes \<Rightarrow> error + bytes" where
  "identity_address pubkey = Inr pubkey"

definition empty_block :: Block where
  "empty_block = \<lparr>Height = 1, Serialize = Inr [1, 2, 3], HashBlock = hash_of_byte 1,
     Transfers = [], Votes = []\<rparr>"

definition unserializable_block :: Block where
  "unserializable_block = \<lparr>Height = 1, Serialize = Inl (New ''cannot serialize''),
     HashBlock = hash_of_byte 1, Transfers = [], Votes = []\<rparr>"

definition unreadable_counts_store :: kvstore where
  "unreadable_counts_store = empty_store\<lparr>kv_data :=
      (kv_data empty_store)((blockAddressTransferCountMappingNS, transferFromPrefix @ [65]) \<mapsto> Uint64ToBytes 5),
     kv_get_fault := (\<lambda>_. True)\<rparr>"

definition empty_counts_store :: kvstore where
  "empty_counts_store = empty_store\<lparr>kv_data := (kv_data empty_store)
     ((blockAddressTransferCountMappingNS, transferFromPrefix @ [65]) \<mapsto> [],
      (blockAddressTransferCountMappingNS, transferToPrefix @ [65]) \<mapsto> [],
      (blockAddressVoteCountMappingNS, voteFromPrefix @ [65]) \<mapsto> [],
      (blockAddressVoteCountMappingNS, voteToPrefix @ [65]) \<mapsto> [])\<rparr>"

definition three_counts_store :: kvstore where
  "three_counts_store = empty_store\<lparr>kv_data := (kv_data empty_store)
     ((blockAddressTransferCountMappingNS, transferFromPrefix @ [65]) \<mapsto> Uint64ToBytes 3,
      (blockAddressTransferCountMappingNS, transferToPrefix @ [65]) \<mapsto> Uint64ToBytes 3,
      (blockAddressVoteCountMappingNS, voteFromPrefix @ [65]) \<mapsto> Uint64ToBytes 3,
      (blockAddressVoteCountMappingNS, voteToPrefix @ [65]) \<mapsto> Uint64ToBytes 3)\<rparr>"

definition top_only_store :: kvstore where
  "top_only_store = empty_store\<lparr>kv_data :=
     (kv_data empty_store)((blockNS, topHeightKey) \<mapsto> replicate 8 0)\<rparr>"

definition total_only_store :: kvstore where
  "total_only_store = empty_store\<lparr>kv_data :=
     (kv_data empty_store)((blockNS, totalTransfersKey) \<mapsto> replicate 8 0)\<rparr>"

definition gap_index_store :: kvstore where
  "gap_index_store = empty_counts_store\<lparr>kv_data := (kv_data empty_counts_store)
     ((blockAddressTransferCountMappingNS, transferFromPrefix @ [65]) \<mapsto> Uint64ToBytes 2,
      (blockAddressTransferMappingNS, transferFromPrefix @ [65] @ Uint64ToBytes 0) \<mapsto> replicate 32 7)\<rparr>"

definition short_entry_store :: kvstore where
  "short_entry_store = empty_store\<lparr>kv_data := (kv_data empty_store)
     ((blockAddressTransferCountMappingNS, transferFromPrefix @ [65]) \<mapsto> Uint64ToBytes 1,
      (blockAddressTransferMappingNS, transferFromPrefix @ [65] @ Uint64ToBytes 0) \<mapsto> replicate 7 1,
      (blockAddressTransferCountMappingNS, transferToPrefix @ [65]) \<mapsto> Uint64ToBytes 1,
      (blockAddressTransferMappingNS, transferToPrefix @ [65] @ Uint64ToBytes 0) \<mapsto> replicate 32 7,
      (blockAddressTransferCountMappingNS, transferToPrefix @ [66]) \<mapsto> Uint64ToBytes 1)\<rparr>"


section \<open>Codec and hash facts\<close>

lemma length_Rep_Hash32B [simp]: "length (Rep_Hash32B h) = 32"
  using Rep_Hash32B [of h] by simp

lemma Rep_ZeroHash32B: "Rep_Hash32B ZeroHash32B = replicate 32 0"
  by (simp add: ZeroHash32B_def Abs_Hash32B_inverse)

lemma Rep_copy_Hash32B:
  "Rep_Hash32B (copy_Hash32B dst src) = take 32 src @ drop (length src) (Rep_Hash32B dst)"
  by (simp add: copy_Hash32B_def Abs_Hash32B_inverse)

lemma Rep_hash_of_byte: "Rep_Hash32B (hash_of_byte b) = replicate 32 b"
  by (simp add: hash_of_byte_def Abs_Hash32B_inverse)

lemma length_le_bytes: "length (le_bytes k n) = k"
  by (induction k arbitrary: n) simp_all

lemma length_Uint64ToBytes [simp]: "length (Uint64ToBytes v) = 8"
  by (simp add: Uint64ToBytes_def length_le_bytes)

lemma le_value_le_bytes: "le_value (le_bytes k n) = n mod 256 ^ k"
proof (induction k arbitrary: n)
  case 0
  show ?case by simp
next
  case (Suc k)
  have "unat (of_nat n :: 8 word) = n mod 256"
    by (simp add: unat_of_nat)
  with Suc show ?case
    by (simp add: mod_mult2_eq)
qed

lemma Uint64_Uint64ToBytes [simp]: "Uint64 (Uint64ToBytes v) = Some v"
proof -
  have "unat v < 2 ^ 64"
    using unsigned_less [of v] by simp
  then have "unat v mod 256 ^ 8 = unat v"
    by simp
  then show ?thesis
    by (simp add: Uint64_def Uint64ToBytes_def length_le_bytes le_value_le_bytes)
qed

lemma Uint64ToBytes_eq_iff [simp]: "Uint64ToBytes v = Uint64ToBytes w \<longleftrightarrow> v = w"
proof
  assume "Uint64ToBytes v = Uint64ToBytes w"
  then have "Uint64 (Uint64ToBytes v) = Uint64 (Uint64ToBytes w)"
    by simp
  then show "v = w"
    by simp
qed simp

lemma Uint64_zeros: "Uint64 (replicate 8 0) = Some 0"
  by (simp add: Uint64_def eval_nat_numeral)

lemma Uint64_None: "length b < 8 \<Longrightarrow> Uint64 b = None"
  by (simp add: Uint64_def)

lemma Uint64_Some: "8 \<le> length b \<Longrightarrow> \<exists>n. Uint64 b = Some n"
  by (simp add: Uint64_def)

lemma length_singleton_keys:
  "length topHeightKey = 10" "length totalTransfersKey = 15" "length totalVotesKey = 11"
  by (simp_all add: topHeightKey_def totalTransfersKey_def totalVotesKey_def)

lemma singleton_keys_distinct [simp]:
  "topHeightKey \<noteq> totalTransfersKey" "totalTransfersKey \<noteq> topHeightKey"
  "topHeightKey \<noteq> totalVotesKey" "totalVotesKey \<noteq> topHeightKey"
  "totalTransfersKey \<noteq> totalVotesKey" "totalVotesKey \<noteq> totalTransfersKey"
  using length_singleton_keys by auto

lemma hash_not_singleton_key [simp]:
  "Rep_Hash32B h \<noteq> topHeightKey" "Rep_Hash32B h \<noteq> totalTransfersKey"
  "Rep_Hash32B h \<noteq> totalVotesKey"
proof -
  have "length k \<noteq> 32 \<Longrightarrow> Rep_Hash32B h \<noteq> k" for k
    by auto
  then show "Rep_Hash32B h \<noteq> topHeightKey" "Rep_Hash32B h \<noteq> totalTransfersKey"
    "Rep_Hash32B h \<noteq> totalVotesKey"
    by (simp_all add: length_singleton_keys)
qed

lemma append_neq_by_nth:
  "i < length p \<Longrightarrow> i < length q \<Longrightarrow> p ! i \<noteq> q ! i \<Longrightarrow> p @ a \<noteq> q @ b"
  by (metis nth_append)

lemma length_prefixes:
  "length transferFromPrefix = 14" "length transferToPrefix = 12"
  "length voteFromPrefix = 10" "length voteToPrefix = 8"
  by (simp_all add: transferFromPrefix_def transferToPrefix_def voteFromPrefix_def voteToPrefix_def)

lemma transfer_from_to_distinct [simp]:
  "transferFromPrefix @ a \<noteq> transferToPrefix @ b" "transferToPrefix @ b \<noteq> transferFromPrefix @ a"
proof -
  have "transferFromPrefix ! 9 \<noteq> transferToPrefix ! 9"
    by code_simp
  then show "transferFromPrefix @ a \<noteq> transferToPrefix @ b"
    by (intro append_neq_by_nth [of 9]) (simp_all add: length_prefixes)
  then show "transferToPrefix @ b \<noteq> transferFromPrefix @ a"
    by (rule not_sym)
qed

lemma vote_from_to_distinct [simp]:
  "voteFromPrefix @ a \<noteq> voteToPrefix @ b" "voteToPrefix @ b \<noteq> voteFromPrefix @ a"
proof -
  have "voteFromPrefix ! 5 \<noteq> voteToPrefix ! 5"
    by code_simp
  then show "voteFromPrefix @ a \<noteq> voteToPrefix @ b"
    by (intro append_neq_by_nth [of 5]) (simp_all add: length_prefixes)
  then show "voteToPrefix @ b \<noteq> voteFromPrefix @ a"
    by (rule not_sym)
qed

lemmas ns_defs = blockNS_def blockHashHeightMappingNS_def blockTransferBlockMappingNS_def
  blockVoteBlockMappingNS_def blockAddressTransferMappingNS_def
  blockAddressTransferCountMappingNS_def blockAddressVoteMappingNS_def
  blockAddressVoteCountMappingNS_def

lemma prefixes_distinct [simp]:
  "transferFromPrefix \<noteq> transferToPrefix" "transferToPrefix \<noteq> transferFromPrefix"
  "voteFromPrefix \<noteq> voteToPrefix" "voteToPrefix \<noteq> voteFromPrefix"
  using transfer_from_to_distinct [of "[]" "[]"] vote_from_to_distinct [of "[]" "[]"]
  by simp_all

lemma copy_full_hash: "length v = 32 \<Longrightarrow> copy_Hash32B dst v = Abs_Hash32B v"
  by (simp add: copy_Hash32B_def)


section \<open>Facts about the concrete stores\<close>

lemma started_store_eq:
  "started_store = empty_store\<lparr>kv_data := (\<lambda>_. None)((blockNS, topHeightKey) \<mapsto> replicate 8 0,
     (blockNS, totalTransfersKey) \<mapsto> replicate 8 0, (blockNS, totalVotesKey) \<mapsto> replicate 8 0)\<rparr>"
  by (simp add: started_store_def Start_def kv_PutIfNotExists_def empty_store_def)

lemma kv_Get_started:
  "kv_Get (started_store\<lparr>kv_commit_fault := c\<rparr>) blockNS topHeightKey = Inr (replicate 8 0)"
  "kv_Get (started_store\<lparr>kv_commit_fault := c\<rparr>) blockNS totalTransfersKey = Inr (replicate 8 0)"
  "kv_Get (started_store\<lparr>kv_commit_fault := c\<rparr>) blockNS totalVotesKey = Inr (replicate 8 0)"
  by (simp_all add: kv_Get_def started_store_eq empty_store_def)

lemma kv_Get_unreadable: "kv_Get unreadable_counts_store ns k = Inl ErrIO"
  by (simp add: kv_Get_def unreadable_counts_store_def)

lemma kv_Get_empty_counts:
  "kv_Get empty_counts_store blockAddressTransferCountMappingNS (transferFromPrefix @ [65]) = Inr []"
  "kv_Get empty_counts_store blockAddressTransferCountMappingNS (transferToPrefix @ [65]) = Inr []"
  "kv_Get empty_counts_store blockAddressVoteCountMappingNS (voteFromPrefix @ [65]) = Inr []"
  "kv_Get empty_counts_store blockAddressVoteCountMappingNS (voteToPrefix @ [65]) = Inr []"
  by (simp_all add: kv_Get_def empty_counts_store_def empty_store_def ns_defs)

lemma kv_Get_three_counts:
  "kv_Get three_counts_store blockAddressTransferCountMappingNS (transferFromPrefix @ [65]) = Inr (Uint64ToBytes 3)"
  "kv_Get three_counts_store blockAddressTransferCountMappingNS (transferToPrefix @ [65]) = Inr (Uint64ToBytes 3)"
  "kv_Get three_counts_store blockAddressVoteCountMappingNS (voteFromPrefix @ [65]) = Inr (Uint64ToBytes 3)"
  "kv_Get three_counts_store blockAddressVoteCountMappingNS (voteToPrefix @ [65]) = Inr (Uint64ToBytes 3)"
  by (simp_all add: kv_Get_def three_counts_store_def empty_store_def ns_defs)

lemma kv_Get_gap_index:
  "kv_Get gap_index_store blockAddressTransferCountMappingNS (transferFromPrefix @ [65]) = Inr (Uint64ToBytes 2)"
  "kv_Get gap_index_store blockAddressTransferCountMappingNS (transferToPrefix @ [65]) = Inr []"
  "kv_Get gap_index_store blockAddressVoteCountMappingNS (voteFromPrefix @ [65]) = Inr []"
  "kv_Get gap_index_store blockAddressVoteCountMappingNS (voteToPrefix @ [65]) = Inr []"
  "kv_Get gap_index_store blockAddressTransferMappingNS (transferFromPrefix @ 65 # Uint64ToBytes 0) = Inr (replicate 32 7)"
  "kv_Get gap_index_store blockAddressTransferMappingNS (transferFromPrefix @ 65 # Uint64ToBytes 1) = Inl ErrNotExist"
  by (simp_all add: kv_Get_def gap_index_store_def empty_counts_store_def empty_store_def ns_defs)

lemma gap_loop:
  "getTransfersByAddress gap_index_store [65] 2 transferFromPrefix
     = ([hash_of_byte 7], Some (Wrapped ErrNotExist ''failed to get transfer for index %x''))"
  by (simp add: getTransfersByAddress_def getTransfersByAddress_loop.simps [of _ _ 2]
      kv_Get_gap_index copy_full_hash hash_of_byte_def)


section \<open>Atomicity of putBlock\<close>

text \<open>
  C2. \<open>putBlock\<close> is atomic: whenever it returns an error (serialization, a read of the
  store, address derivation, or the commit of the batch), the store after the call is the
  store before the call. Every mutation is staged in the one batch, and the commit of the
  store applies it as a whole or not at all.
\<close>

theorem putBlock_failure_leaves_store:
  "putBlock GetAddress s blk = Some (s', Some err) \<Longrightarrow> s' = s"
proof (cases "putBlock_stage GetAddress s blk")
  case None
  assume "putBlock GetAddress s blk = Some (s', Some err)"
  with None show ?thesis by (simp add: putBlock_def)
next
  case (Some r)
  assume a: "putBlock GetAddress s blk = Some (s', Some err)"
  obtain batch e where r: "r = (batch, e)" by (cases r)
  show ?thesis
  proof (cases e)
    case None
    with a Some r show ?thesis
      by (simp add: putBlock_def kv_Commit_def split: if_splits)
  next
    case (Some e')
    with a \<open>putBlock_stage GetAddress s blk = Some r\<close> r show ?thesis
      by (simp add: putBlock_def)
  qed
qed

theorem putBlock_failure_leaves_store_witness:
  "putBlock identity_address (started_store\<lparr>kv_commit_fault := True\<rparr>) empty_block
     = Some (started_store\<lparr>kv_commit_fault := True\<rparr>, Some ErrIO)
   \<and> putBlock identity_address started_store unserializable_block
     = Some (started_store, Some (Wrapped (New ''cannot serialize'') ''failed to serialize block''))"
proof -
  have "\<exists>s'. putBlock identity_address (started_store\<lparr>kv_commit_fault := True\<rparr>) empty_block
     = Some (s', Some ErrIO)"
    by (simp add: putBlock_def putBlock_stage_def kv_Get_started Uint64_zeros empty_block_def
        putTransfers_def putVotes_def kv_Commit_def Let_def)
  then obtain s' where h: "putBlock identity_address (started_store\<lparr>kv_commit_fault := True\<rparr>) empty_block
     = Some (s', Some ErrIO)" ..
  have "\<exists>s'. putBlock identity_address started_store unserializable_block
     = Some (s', Some (Wrapped (New ''cannot serialize'') ''failed to serialize block''))"
    by (simp add: putBlock_def putBlock_stage_def unserializable_block_def)
  then obtain s'' where h2: "putBlock identity_address started_store unserializable_block
     = Some (s'', Some (Wrapped (New ''cannot serialize'') ''failed to serialize block''))" ..
  from putBlock_failure_leaves_store [OF h] putBlock_failure_leaves_store [OF h2] h h2
  show ?thesis by simp
qed


section \<open>getBlockHash on a value of the wrong length\<close>

text \<open>
  C6. The claim: \<open>getBlockHash\<close> fails with a corrupt-value error when the value under
  \<open>"height." \<parallel> h\<close> is present and not 32 bytes long. The source wraps the error of the read,
  which is \<open>nil\<close> on this path, so \<open>errors.Wrap\<close> gives \<open>nil\<close>: on a stored value of 7 bytes
  the call returns the zero hash and no error.
\<close>

theorem getBlockHash_short_value_returns_nil_error:
  "kv_Get corrupt_height_store blockHashHeightMappingNS (heightPrefix @ Uint64ToBytes 5)
     = Inr (replicate 7 1)
   \<and> getBlockHash corrupt_height_store 5 = (ZeroHash32B, None)"
  by (simp add: getBlockHash_def kv_Get_def corrupt_height_store_def empty_store_def)


section \<open>The per-address counters\<close>

text \<open>
  The claim C7 says that a counter getter returns 0 without error exactly when the counter key
  is absent, and that a backend failure of the read is returned as an error. It is not: with
  the counter stored as 5 and the read failing, the getter returns 0 and no error.
\<close>

theorem count_getter_backend_failure_counterexample:
  "kv_data unreadable_counts_store (blockAddressTransferCountMappingNS, transferFromPrefix @ [65])
     = Some (Uint64ToBytes 5)
   \<and> kv_Get unreadable_counts_store blockAddressTransferCountMappingNS (transferFromPrefix @ [65])
     = Inl ErrIO
   \<and> getTransferCountBySenderAddress unreadable_counts_store [65] = Some (0, None)"
  by (simp add: getTransferCountBySenderAddress_def kv_Get_def unreadable_counts_store_def
      empty_store_def)

text \<open>
  C7, amended. Each of the four counter getters returns 0 without error whenever the read of
  the counter key fails, the key being absent or the backend failing alike; a present but
  empty value gives an error; a present value that decodes gives the decoded count.
\<close>

theorem count_getters_read_error_is_zero:
  "(kv_Get s blockAddressTransferCountMappingNS (transferFromPrefix @ a) = Inl err
      \<longrightarrow> getTransferCountBySenderAddress s a = Some (0, None)) \<and>
   (kv_Get s blockAddressTransferCountMappingNS (transferFromPrefix @ a) = Inr []
      \<longrightarrow> getTransferCountBySenderAddress s a
          = Some (0, Some (New ''count of transfers as recipient is broken''))) \<and>
   (kv_Get s blockAddressTransferCountMappingNS (transferFromPrefix @ a) = Inr v \<and> Uint64 v = Some n
      \<longrightarrow> getTransferCountBySenderAddress s a = Some (n, None)) \<and>
   (kv_Get s blockAddressTransferCountMappingNS (transferToPrefix @ a) = Inl err
      \<longrightarrow> getTransferCountByRecipientAddress s a = Some (0, None)) \<and>
   (kv_Get s blockAddressTransferCountMappingNS (transferToPrefix @ a) = Inr []
      \<longrightarrow> getTransferCountByRecipientAddress s a
          = Some (0, Some (New ''count of transfers as recipient is broken''))) \<and>
   (kv_Get s blockAddressTransferCountMappingNS (transferToPrefix @ a) = Inr v \<and> Uint64 v = Some n
      \<longrightarrow> getTransferCountByRecipientAddress s a = Some (n, None)) \<and>
   (kv_Get s blockAddressVoteCountMappingNS (voteFromPrefix @ a) = Inl err
      \<longrightarrow> getVoteCountBySenderAddress s a = Some (0, None)) \<and>
   (kv_Get s blockAddressVoteCountMappingNS (voteFromPrefix @ a) = Inr []
      \<longrightarrow> getVoteCountBySenderAddress s a
          = Some (0, Some (New ''count of votes as sender is broken''))) \<and>
   (kv_Get s blockAddressVoteCountMappingNS (voteFromPrefix @ a) = Inr v \<and> Uint64 v = Some n
      \<longrightarrow> getVoteCountBySenderAddress s a = Some (n, None)) \<and>
   (kv_Get s blockAddressVoteCountMappingNS (voteToPrefix @ a) = Inl err
      \<longrightarrow> getVoteCountByRecipientAddress s a = Some (0, None)) \<and>
   (kv_Get s blockAddressVoteCountMappingNS (voteToPrefix @ a) = Inr []
      \<longrightarrow> getVoteCountByRecipientAddress s a
          = Some (0, Some (New ''count of votes as recipient is broken''))) \<and>
   (kv_Get s blockAddressVoteCountMappingNS (voteToPrefix @ a) = Inr v \<and> Uint64 v = Some n
      \<longrightarrow> getVoteCountByRecipientAddress s a = Some (n, None))"
proof -
  have [simp]: "Uint64 [] = None"
    by (simp add: Uint64_def)
  show ?thesis
    by (auto simp add: getTransferCountBySenderAddress_def getTransferCountByRecipientAddress_def
        getVoteCountBySenderAddress_def getVoteCountByRecipientAddress_def)
qed

theorem count_getters_read_error_is_zero_witness:
  "getTransferCountBySenderAddress unreadable_counts_store [65] = Some (0, None) \<and>
   getTransferCountByRecipientAddress unreadable_counts_store [65] = Some (0, None) \<and>
   getVoteCountBySenderAddress unreadable_counts_store [65] = Some (0, None) \<and>
   getVoteCountByRecipientAddress unreadable_counts_store [65] = Some (0, None) \<and>
   getTransferCountBySenderAddress empty_counts_store [65]
     = Some (0, Some (New ''count of transfers as recipient is broken'')) \<and>
   getTransferCountByRecipientAddress empty_counts_store [65]
     = Some (0, Some (New ''count of transfers as recipient is broken'')) \<and>
   getVoteCountBySenderAddress empty_counts_store [65]
     = Some (0, Some (New ''count of votes as sender is broken'')) \<and>
   getVoteCountByRecipientAddress empty_counts_store [65]
     = Some (0, Some (New ''count of votes as recipient is broken'')) \<and>
   getTransferCountBySenderAddress three_counts_store [65] = Some (3, None) \<and>
   getTransferCountByRecipientAddress three_counts_store [65] = Some (3, None) \<and>
   getVoteCountBySenderAddress three_counts_store [65] = Some (3, None) \<and>
   getVoteCountByRecipientAddress three_counts_store [65] = Some (3, None)"
  using count_getters_read_error_is_zero [of unreadable_counts_store "[65]" ErrIO "[]" 0]
    count_getters_read_error_is_zero [of empty_counts_store "[65]" ErrIO "[]" 0]
    count_getters_read_error_is_zero [of three_counts_store "[65]" ErrIO "Uint64ToBytes 3" 3]
  by (simp add: kv_Get_unreadable kv_Get_empty_counts kv_Get_three_counts)


section \<open>Start\<close>

text \<open>
  The claim C8 says that an already-exists collision is not an error at any of the three
  singleton keys, and that Start still attempts the remaining insertions after one. It is
  not so: with \<open>top-height\<close> present and the totals absent, Start succeeds and leaves the
  totals absent; with only \<open>total-transfers\<close> present, Start fails on the collision.
\<close>

theorem Start_collision_counterexample:
  "Start None top_only_store = (top_only_store, None)
   \<and> kv_data (fst (Start None top_only_store)) (blockNS, totalTransfersKey) = None
   \<and> kv_data (fst (Start None top_only_store)) (blockNS, totalVotesKey) = None
   \<and> snd (Start None total_only_store)
       = Some (Wrapped ErrAlreadyExist ''failed to write initial value for total transfers'')"
  by (simp add: Start_def kv_PutIfNotExists_def top_only_store_def total_only_store_def
      empty_store_def)

text \<open>
  C8, amended. After the child services have started, Start conditionally inserts eight zero
  bytes at \<open>top-height\<close>. When \<open>top-height\<close> is already present Start succeeds at once, the
  store unchanged and the other two insertions not attempted. When it was absent, Start
  inserts eight zero bytes at \<open>total-transfers\<close> and then at \<open>total-votes\<close>, and succeeds
  only if both were absent and no insertion failed: there an already-exists collision makes
  Start fail like any other store error, and a store error at \<open>top-height\<close> other than the
  collision makes Start fail.
\<close>

theorem Start_behaviour:
  "(\<not> kv_put_fault s (blockNS, topHeightKey) \<and> kv_data s (blockNS, topHeightKey) \<noteq> None
      \<longrightarrow> Start None s = (s, None)) \<and>
   (\<not> kv_put_fault s (blockNS, topHeightKey) \<and> kv_data s (blockNS, topHeightKey) = None \<and>
    \<not> kv_put_fault s (blockNS, totalTransfersKey) \<and> kv_data s (blockNS, totalTransfersKey) = None \<and>
    \<not> kv_put_fault s (blockNS, totalVotesKey) \<and> kv_data s (blockNS, totalVotesKey) = None
      \<longrightarrow> Start None s = (s\<lparr>kv_data := (kv_data s)((blockNS, topHeightKey) \<mapsto> replicate 8 0,
            (blockNS, totalTransfersKey) \<mapsto> replicate 8 0,
            (blockNS, totalVotesKey) \<mapsto> replicate 8 0)\<rparr>, None)) \<and>
   (snd (Start None s) = None
      \<longrightarrow> \<not> kv_put_fault s (blockNS, topHeightKey) \<and>
          (kv_data s (blockNS, topHeightKey) \<noteq> None \<or>
           (\<not> kv_put_fault s (blockNS, totalTransfersKey) \<and> kv_data s (blockNS, totalTransfersKey) = None \<and>
            \<not> kv_put_fault s (blockNS, totalVotesKey) \<and> kv_data s (blockNS, totalVotesKey) = None)))"
  by (auto simp add: Start_def kv_PutIfNotExists_def split: if_splits)

theorem Start_behaviour_witness:
  "Start None top_only_store = (top_only_store, None) \<and>
   Start None empty_store = (started_store, None) \<and>
   \<not> kv_put_fault empty_store (blockNS, topHeightKey) \<and>
   kv_data empty_store (blockNS, totalTransfersKey) = None \<and>
   kv_data empty_store (blockNS, totalVotesKey) = None"
  using Start_behaviour [of top_only_store] Start_behaviour [of empty_store]
  by (simp add: started_store_eq top_only_store_def empty_store_def)


section \<open>The per-address enumerations never return a partial list with an error\<close>

lemma enum_nil_aux:
  "(case c of None \<Rightarrow> None
    | Some (n, Some err) \<Rightarrow> Some ([], f err)
    | Some (n, None) \<Rightarrow> (case g n of (r, Some e') \<Rightarrow> Some ([], h e') | (r, None) \<Rightarrow> Some (r, None)))
   = Some (res, Some e) \<Longrightarrow> res = []"
  by (cases c; cases "snd (the c)"; cases "g (fst (the c))"; cases "snd (g (fst (the c)))") auto

text \<open>
  C10. Whenever \<open>getTransfersBySenderAddress\<close>, \<open>getTransfersByRecipientAddress\<close>,
  \<open>getVotesBySenderAddress\<close> or \<open>getVotesByRecipientAddress\<close> returns an error, the returned
  list is \<open>nil\<close>, although the inner iteration returns the hashes it had collected.
\<close>

theorem enumeration_error_returns_nil:
  "(getTransfersBySenderAddress s a = Some (res, Some e) \<longrightarrow> res = []) \<and>
   (getTransfersByRecipientAddress s a = Some (res, Some e) \<longrightarrow> res = []) \<and>
   (getVotesBySenderAddress s a = Some (res, Some e) \<longrightarrow> res = []) \<and>
   (getVotesByRecipientAddress s a = Some (res, Some e) \<longrightarrow> res = [])"
  unfolding getTransfersBySenderAddress_def getTransfersByRecipientAddress_def
    getVotesBySenderAddress_def getVotesByRecipientAddress_def
  by (intro conjI impI; erule enum_nil_aux)

theorem enumeration_error_returns_nil_witness:
  "fst (getTransfersByAddress gap_index_store [65] 2 transferFromPrefix) = [hash_of_byte 7] \<and>
   getTransfersBySenderAddress gap_index_store [65]
     = Some ([], Some (Wrapped ErrNotExist ''failed to get transfer for index %x'')) \<and>
   getTransfersByRecipientAddress gap_index_store [65]
     = Some ([], Some (Wrapped (New ''count of transfers as recipient is broken'') ''for recipient %x'')) \<and>
   getVotesBySenderAddress gap_index_store [65]
     = Some ([], Some (Wrapped (New ''count of votes as sender is broken'') ''to get votecount for sender %x'')) \<and>
   getVotesByRecipientAddress gap_index_store [65]
     = Some ([], Some (Wrapped (New ''count of votes as recipient is broken'') ''to get votecount for recipient %x''))"
proof -
  have c1: "getTransferCountBySenderAddress gap_index_store [65] = Some (2, None)"
    by (simp add: getTransferCountBySenderAddress_def kv_Get_gap_index)
  have "\<exists>r. getTransfersBySenderAddress gap_index_store [65]
     = Some (r, Some (Wrapped ErrNotExist ''failed to get transfer for index %x''))"
    by (simp add: getTransfersBySenderAddress_def c1 gap_loop)
  then obtain r1 where h1: "getTransfersBySenderAddress gap_index_store [65]
     = Some (r1, Some (Wrapped ErrNotExist ''failed to get transfer for index %x''))" ..
  have "\<exists>r. getTransfersByRecipientAddress gap_index_store [65]
     = Some (r, Some (Wrapped (New ''count of transfers as recipient is broken'') ''for recipient %x''))"
    by (simp add: getTransfersByRecipientAddress_def getTransferCountByRecipientAddress_def
        kv_Get_gap_index)
  then obtain r2 where h2: "getTransfersByRecipientAddress gap_index_store [65]
     = Some (r2, Some (Wrapped (New ''count of transfers as recipient is broken'') ''for recipient %x''))" ..
  have "\<exists>r. getVotesBySenderAddress gap_index_store [65]
     = Some (r, Some (Wrapped (New ''count of votes as sender is broken'') ''to get votecount for sender %x''))"
    by (simp add: getVotesBySenderAddress_def getVoteCountBySenderAddress_def
        kv_Get_gap_index)
  then obtain r3 where h3: "getVotesBySenderAddress gap_index_store [65]
     = Some (r3, Some (Wrapped (New ''count of votes as sender is broken'') ''to get votecount for sender %x''))" ..
  have "\<exists>r. getVotesByRecipientAddress gap_index_store [65]
     = Some (r, Some (Wrapped (New ''count of votes as recipient is broken'') ''to get votecount for recipient %x''))"
    by (simp add: getVotesByRecipientAddress_def getVoteCountByRecipientAddress_def
        kv_Get_gap_index)
  then obtain r4 where h4: "getVotesByRecipientAddress gap_index_store [65]
     = Some (r4, Some (Wrapped (New ''count of votes as recipient is broken'') ''to get votecount for recipient %x''))" ..
  from enumeration_error_returns_nil [of gap_index_store "[65]" r1] h1
  have "r1 = []" by simp
  moreover from enumeration_error_returns_nil [of gap_index_store "[65]" r2] h2
  have "r2 = []" by simp
  moreover from enumeration_error_returns_nil [of gap_index_store "[65]" r3] h3
  have "r3 = []" by simp
  moreover from enumeration_error_returns_nil [of gap_index_store "[65]" r4] h4
  have "r4 = []" by simp
  ultimately show ?thesis
    using h1 h2 h3 h4 gap_loop by simp
qed


section \<open>Enumerating the transfers of an address\<close>

lemma unat_word_succ: "i < (count :: 64 word) \<Longrightarrow> unat (i + 1) = Suc (unat i)"
proof -
  assume "i < count"
  then have "unat i < unat count"
    by (simp add: word_less_nat_alt)
  moreover have "unat count < 2 ^ LENGTH(64)"
    by (rule unsigned_less)
  ultimately have "unat i + unat (1 :: 64 word) < 2 ^ LENGTH(64)"
    by simp
  then have "unat (i + 1) = unat i + unat (1 :: 64 word)"
    by (simp only: unat_add_lem)
  then show ?thesis
    by simp
qed

lemma word_succ_le: "i < (count :: 64 word) \<Longrightarrow> i + 1 \<le> j \<Longrightarrow> i \<le> j"
  by (simp add: word_le_nat_alt unat_word_succ)

lemma word_neq_succ_le: "i < (count :: 64 word) \<Longrightarrow> i \<le> j \<Longrightarrow> i \<noteq> j \<Longrightarrow> i + 1 \<le> j"
  by (simp add: inc_le)

lemma transfers_loop_all_present:
  "(\<forall>j. i \<le> j \<and> j < count \<longrightarrow>
      kv_Get s blockAddressTransferMappingNS (kp @ a @ Uint64ToBytes j) = Inr (f j) \<and> f j \<noteq> [])
   \<longrightarrow> getTransfersByAddress_loop s a count kp i res
       = (res @ map (\<lambda>n. copy_Hash32B ZeroHash32B (f (of_nat n))) [unat i..<unat count], None)"
proof (induction s a count kp i res rule: getTransfersByAddress_loop.induct)
  case (1 s a count kp i res)
  show ?case
  proof (intro impI)
    assume all: "\<forall>j. i \<le> j \<and> j < count \<longrightarrow>
      kv_Get s blockAddressTransferMappingNS (kp @ a @ Uint64ToBytes j) = Inr (f j) \<and> f j \<noteq> []"
    show "getTransfersByAddress_loop s a count kp i res
       = (res @ map (\<lambda>n. copy_Hash32B ZeroHash32B (f (of_nat n))) [unat i..<unat count], None)"
    proof (cases "i < count")
      case False
      then have "unat count \<le> unat i"
        by (simp add: word_less_nat_alt)
      with False show ?thesis
        by (simp add: getTransfersByAddress_loop.simps [of s a count kp i res])
    next
      case True
      from all True have get: "kv_Get s blockAddressTransferMappingNS ((kp @ a) @ Uint64ToBytes i) = Inr (f i)"
        and ne: "\<not> length (f i) = 0"
        by simp_all
      have rest: "\<forall>j. i + 1 \<le> j \<and> j < count \<longrightarrow>
        kv_Get s blockAddressTransferMappingNS (kp @ a @ Uint64ToBytes j) = Inr (f j) \<and> f j \<noteq> []"
        using all word_succ_le [OF True] by blast
      from "1.IH" [OF True refl refl get ne] rest
      have ih: "getTransfersByAddress_loop s a count kp (i + 1) (res @ [copy_Hash32B ZeroHash32B (f i)])
        = ((res @ [copy_Hash32B ZeroHash32B (f i)])
            @ map (\<lambda>n. copy_Hash32B ZeroHash32B (f (of_nat n))) [unat (i + 1)..<unat count], None)"
        by blast
      from True have lt: "unat i < unat count"
        by (simp add: word_less_nat_alt)
      have "[unat i..<unat count] = unat i # [Suc (unat i)..<unat count]"
        using lt by (rule upt_conv_Cons)
      with True get ne ih show ?thesis
        by (simp add: getTransfersByAddress_loop.simps [of s a count kp i res] unat_word_succ [OF True])
    qed
  qed
qed

lemma transfers_loop_some_absent:
  "(\<exists>j. i \<le> j \<and> j < count \<and>
      ((\<exists>err. kv_Get s blockAddressTransferMappingNS (kp @ a @ Uint64ToBytes j) = Inl err) \<or>
       kv_Get s blockAddressTransferMappingNS (kp @ a @ Uint64ToBytes j) = Inr []))
   \<longrightarrow> (\<exists>e. snd (getTransfersByAddress_loop s a count kp i res) = Some e)"
proof (induction s a count kp i res rule: getTransfersByAddress_loop.induct)
  case (1 s a count kp i res)
  show ?case
  proof (intro impI)
    assume "\<exists>j. i \<le> j \<and> j < count \<and>
      ((\<exists>err. kv_Get s blockAddressTransferMappingNS (kp @ a @ Uint64ToBytes j) = Inl err) \<or>
       kv_Get s blockAddressTransferMappingNS (kp @ a @ Uint64ToBytes j) = Inr [])"
    then obtain j where j: "i \<le> j" "j < count"
      and bad: "(\<exists>err. kv_Get s blockAddressTransferMappingNS (kp @ a @ Uint64ToBytes j) = Inl err) \<or>
       kv_Get s blockAddressTransferMappingNS (kp @ a @ Uint64ToBytes j) = Inr []"
      by blast
    from j have True: "i < count"
      by simp
    show "\<exists>e. snd (getTransfersByAddress_loop s a count kp i res) = Some e"
    proof (cases "kv_Get s blockAddressTransferMappingNS ((kp @ a) @ Uint64ToBytes i)")
      case (Inl err)
      with True show ?thesis
        by (simp add: getTransfersByAddress_loop.simps [of s a count kp i res])
    next
      case (Inr v)
      show ?thesis
      proof (cases "length v = 0")
        case True
        with Inr \<open>i < count\<close> show ?thesis
          by (simp add: getTransfersByAddress_loop.simps [of s a count kp i res])
      next
        case False
        with Inr bad have "i \<noteq> j"
          by auto
        with j \<open>i < count\<close> have "i + 1 \<le> j"
          by (simp add: word_neq_succ_le)
        with j bad have ex: "\<exists>j. i + 1 \<le> j \<and> j < count \<and>
          ((\<exists>err. kv_Get s blockAddressTransferMappingNS (kp @ a @ Uint64ToBytes j) = Inl err) \<or>
           kv_Get s blockAddressTransferMappingNS (kp @ a @ Uint64ToBytes j) = Inr [])"
          by blast
        from "1.IH" [OF \<open>i < count\<close> refl refl Inr False] ex
        have "\<exists>e. snd (getTransfersByAddress_loop s a count kp (i + 1)
                 (res @ [copy_Hash32B ZeroHash32B v])) = Some e"
          by blast
        with Inr False \<open>i < count\<close> show ?thesis
          by (simp add: getTransfersByAddress_loop.simps [of s a count kp i res])
      qed
    qed
  qed
qed


lemma kv_Get_short_entry:
  "kv_Get short_entry_store blockAddressTransferCountMappingNS (transferFromPrefix @ [65]) = Inr (Uint64ToBytes 1)"
  "kv_Get short_entry_store blockAddressTransferMappingNS (transferFromPrefix @ 65 # Uint64ToBytes 0) = Inr (replicate 7 1)"
  "kv_Get short_entry_store blockAddressTransferCountMappingNS (transferToPrefix @ [65]) = Inr (Uint64ToBytes 1)"
  "kv_Get short_entry_store blockAddressTransferMappingNS (transferToPrefix @ 65 # Uint64ToBytes 0) = Inr (replicate 32 7)"
  "kv_Get short_entry_store blockAddressTransferCountMappingNS (transferToPrefix @ [66]) = Inr (Uint64ToBytes 1)"
  "kv_Get short_entry_store blockAddressTransferMappingNS (transferToPrefix @ 66 # Uint64ToBytes 0) = Inl ErrNotExist"
  by (simp_all add: kv_Get_def short_entry_store_def empty_store_def ns_defs)

text \<open>
  The claim C9 says that a value shorter than 32 bytes inside the counted range makes the
  enumeration fail with a corrupt-value error. A stored value of 7 bytes does not: it is
  copied into a zero hash and returned, with no error.
\<close>

theorem getTransfers_short_value_counterexample:
  "kv_Get short_entry_store blockAddressTransferMappingNS (transferFromPrefix @ [65] @ Uint64ToBytes 0)
     = Inr (replicate 7 1)
   \<and> getTransfersBySenderAddress short_entry_store [65]
     = Some ([copy_Hash32B ZeroHash32B (replicate 7 1)], None)"
  by (simp add: getTransfersBySenderAddress_def getTransferCountBySenderAddress_def
      getTransfersByAddress_def getTransfersByAddress_loop.simps [of _ _ 1] kv_Get_short_entry)

text \<open>
  C9, amended. \<open>getTransfersBySenderAddress\<close> (and the recipient variant) first takes the
  count \<open>c\<close> that the counter getter returns for the address: the stored counter when the
  counter key can be read and decodes, and 0 when the read of the counter key fails, the key
  being absent or the backend failing; in that last case it returns the empty list and no
  error, whatever entries are stored. It then reads the values at sequences 0 to \<open>c - 1\<close>.
  If every one of them can be read and is not empty, it returns the list of length \<open>c\<close> of
  these values in sequence order, each copied into a 32-byte hash (a value shorter than
  32 bytes is padded with zero bytes, a longer one cut). If a value in that range cannot be
  read (it is missing, or the backend fails) or is empty, the call fails with an error and
  returns no list.
\<close>

theorem getTransfers_enumeration:
  "(getTransferCountBySenderAddress s a = Some (c, None) \<and>
    (\<forall>i. i < c \<longrightarrow> kv_Get s blockAddressTransferMappingNS (transferFromPrefix @ a @ Uint64ToBytes i)
                      = Inr (f i) \<and> f i \<noteq> [])
      \<longrightarrow> getTransfersBySenderAddress s a
          = Some (map (\<lambda>n. copy_Hash32B ZeroHash32B (f (of_nat n))) [0..<unat c], None)) \<and>
   (getTransferCountBySenderAddress s a = Some (c, None) \<and> i < c \<and>
    ((\<exists>err. kv_Get s blockAddressTransferMappingNS (transferFromPrefix @ a @ Uint64ToBytes i) = Inl err) \<or>
     kv_Get s blockAddressTransferMappingNS (transferFromPrefix @ a @ Uint64ToBytes i) = Inr [])
      \<longrightarrow> (\<exists>e. getTransfersBySenderAddress s a = Some ([], Some e))) \<and>
   (getTransferCountByRecipientAddress s a = Some (c, None) \<and>
    (\<forall>i. i < c \<longrightarrow> kv_Get s blockAddressTransferMappingNS (transferToPrefix @ a @ Uint64ToBytes i)
                      = Inr (f i) \<and> f i \<noteq> [])
      \<longrightarrow> getTransfersByRecipientAddress s a
          = Some (map (\<lambda>n. copy_Hash32B ZeroHash32B (f (of_nat n))) [0..<unat c], None)) \<and>
   (getTransferCountByRecipientAddress s a = Some (c, None) \<and> i < c \<and>
    ((\<exists>err. kv_Get s blockAddressTransferMappingNS (transferToPrefix @ a @ Uint64ToBytes i) = Inl err) \<or>
     kv_Get s blockAddressTransferMappingNS (transferToPrefix @ a @ Uint64ToBytes i) = Inr [])
      \<longrightarrow> (\<exists>e. getTransfersByRecipientAddress s a = Some ([], Some e))) \<and>
   Rep_Hash32B (copy_Hash32B ZeroHash32B v) = take 32 v @ replicate (32 - length v) 0 \<and>
   (kv_Get s blockAddressTransferCountMappingNS (transferFromPrefix @ a) = Inr w \<and> Uint64 w = Some c
      \<longrightarrow> getTransferCountBySenderAddress s a = Some (c, None)) \<and>
   (kv_Get s blockAddressTransferCountMappingNS (transferToPrefix @ a) = Inr w \<and> Uint64 w = Some c
      \<longrightarrow> getTransferCountByRecipientAddress s a = Some (c, None)) \<and>
   (kv_Get s blockAddressTransferCountMappingNS (transferFromPrefix @ a) = Inl err
      \<longrightarrow> getTransferCountBySenderAddress s a = Some (0, None)
          \<and> getTransfersBySenderAddress s a = Some ([], None)) \<and>
   (kv_Get s blockAddressTransferCountMappingNS (transferToPrefix @ a) = Inl err
      \<longrightarrow> getTransferCountByRecipientAddress s a = Some (0, None)
          \<and> getTransfersByRecipientAddress s a = Some ([], None))"
proof -
  have ok: "getTransfersByAddress s a c kp
      = (map (\<lambda>n. copy_Hash32B ZeroHash32B (f (of_nat n))) [0..<unat c], None)"
    if "\<forall>i. i < c \<longrightarrow> kv_Get s blockAddressTransferMappingNS (kp @ a @ Uint64ToBytes i)
                      = Inr (f i) \<and> f i \<noteq> []" for kp
    using that transfers_loop_all_present [of 0 c s kp a f "[]"]
    by (simp add: getTransfersByAddress_def)
  have bad: "\<exists>e. snd (getTransfersByAddress s a c kp) = Some e"
    if "i < c" "(\<exists>err. kv_Get s blockAddressTransferMappingNS (kp @ a @ Uint64ToBytes i) = Inl err) \<or>
     kv_Get s blockAddressTransferMappingNS (kp @ a @ Uint64ToBytes i) = Inr []" for kp
  proof -
    from that have "\<exists>j. 0 \<le> j \<and> j < c \<and>
      ((\<exists>err. kv_Get s blockAddressTransferMappingNS (kp @ a @ Uint64ToBytes j) = Inl err) \<or>
       kv_Get s blockAddressTransferMappingNS (kp @ a @ Uint64ToBytes j) = Inr [])"
      by (intro exI [of _ i]) simp
    with transfers_loop_some_absent [of 0 c s kp a "[]"] show ?thesis
      by (simp add: getTransfersByAddress_def)
  qed
  have pad: "Rep_Hash32B (copy_Hash32B ZeroHash32B v) = take 32 v @ replicate (32 - length v) 0"
    by (simp add: Rep_copy_Hash32B Rep_ZeroHash32B)
  have s1: "getTransfersBySenderAddress s a
          = Some (map (\<lambda>n. copy_Hash32B ZeroHash32B (f (of_nat n))) [0..<unat c], None)"
    if "getTransferCountBySenderAddress s a = Some (c, None)"
      "\<forall>i. i < c \<longrightarrow> kv_Get s blockAddressTransferMappingNS (transferFromPrefix @ a @ Uint64ToBytes i)
                      = Inr (f i) \<and> f i \<noteq> []"
    using that ok [of transferFromPrefix] by (simp add: getTransfersBySenderAddress_def)
  have s2: "\<exists>e. getTransfersBySenderAddress s a = Some ([], Some e)"
    if "getTransferCountBySenderAddress s a = Some (c, None)" "i < c"
      "(\<exists>err. kv_Get s blockAddressTransferMappingNS (transferFromPrefix @ a @ Uint64ToBytes i) = Inl err) \<or>
       kv_Get s blockAddressTransferMappingNS (transferFromPrefix @ a @ Uint64ToBytes i) = Inr []"
  proof -
    from bad [OF that(2,3)] obtain e where "snd (getTransfersByAddress s a c transferFromPrefix) = Some e" ..
    with that(1) show ?thesis
      by (cases "getTransfersByAddress s a c transferFromPrefix")
         (simp add: getTransfersBySenderAddress_def)
  qed
  have r1: "getTransfersByRecipientAddress s a
          = Some (map (\<lambda>n. copy_Hash32B ZeroHash32B (f (of_nat n))) [0..<unat c], None)"
    if "getTransferCountByRecipientAddress s a = Some (c, None)"
      "\<forall>i. i < c \<longrightarrow> kv_Get s blockAddressTransferMappingNS (transferToPrefix @ a @ Uint64ToBytes i)
                      = Inr (f i) \<and> f i \<noteq> []"
    using that ok [of transferToPrefix] by (simp add: getTransfersByRecipientAddress_def)
  have r2: "\<exists>e. getTransfersByRecipientAddress s a = Some ([], Some e)"
    if "getTransferCountByRecipientAddress s a = Some (c, None)" "i < c"
      "(\<exists>err. kv_Get s blockAddressTransferMappingNS (transferToPrefix @ a @ Uint64ToBytes i) = Inl err) \<or>
       kv_Get s blockAddressTransferMappingNS (transferToPrefix @ a @ Uint64ToBytes i) = Inr []"
  proof -
    from bad [OF that(2,3)] obtain e where "snd (getTransfersByAddress s a c transferToPrefix) = Some e" ..
    with that(1) show ?thesis
      by (cases "getTransfersByAddress s a c transferToPrefix")
         (simp add: getTransfersByRecipientAddress_def)
  qed
  have [simp]: "Uint64 [] = None"
    by (simp add: Uint64_def)
  have c1: "getTransferCountBySenderAddress s a = Some (c, None)"
    if "kv_Get s blockAddressTransferCountMappingNS (transferFromPrefix @ a) = Inr w" "Uint64 w = Some c"
    using that by (auto simp add: getTransferCountBySenderAddress_def)
  have c2: "getTransferCountByRecipientAddress s a = Some (c, None)"
    if "kv_Get s blockAddressTransferCountMappingNS (transferToPrefix @ a) = Inr w" "Uint64 w = Some c"
    using that by (auto simp add: getTransferCountByRecipientAddress_def)
  have z: "getTransfersByAddress s a 0 kp = ([], None)" for kp
    by (simp add: getTransfersByAddress_def getTransfersByAddress_loop.simps [of _ _ 0])
  have e1: "getTransferCountBySenderAddress s a = Some (0, None)
      \<and> getTransfersBySenderAddress s a = Some ([], None)"
    if "kv_Get s blockAddressTransferCountMappingNS (transferFromPrefix @ a) = Inl err"
    using that by (simp add: getTransfersBySenderAddress_def getTransferCountBySenderAddress_def z)
  have e2: "getTransferCountByRecipientAddress s a = Some (0, None)
      \<and> getTransfersByRecipientAddress s a = Some ([], None)"
    if "kv_Get s blockAddressTransferCountMappingNS (transferToPrefix @ a) = Inl err"
    using that by (simp add: getTransfersByRecipientAddress_def getTransferCountByRecipientAddress_def z)
  from s1 s2 r1 r2 have main: "(getTransferCountBySenderAddress s a = Some (c, None) \<and>
    (\<forall>i. i < c \<longrightarrow> kv_Get s blockAddressTransferMappingNS (transferFromPrefix @ a @ Uint64ToBytes i)
                      = Inr (f i) \<and> f i \<noteq> [])
      \<longrightarrow> getTransfersBySenderAddress s a
          = Some (map (\<lambda>n. copy_Hash32B ZeroHash32B (f (of_nat n))) [0..<unat c], None)) \<and>
   (getTransferCountBySenderAddress s a = Some (c, None) \<and> i < c \<and>
    ((\<exists>err. kv_Get s blockAddressTransferMappingNS (transferFromPrefix @ a @ Uint64ToBytes i) = Inl err) \<or>
     kv_Get s blockAddressTransferMappingNS (transferFromPrefix @ a @ Uint64ToBytes i) = Inr [])
      \<longrightarrow> (\<exists>e. getTransfersBySenderAddress s a = Some ([], Some e))) \<and>
   (getTransferCountByRecipientAddress s a = Some (c, None) \<and>
    (\<forall>i. i < c \<longrightarrow> kv_Get s blockAddressTransferMappingNS (transferToPrefix @ a @ Uint64ToBytes i)
                      = Inr (f i) \<and> f i \<noteq> [])
      \<longrightarrow> getTransfersByRecipientAddress s a
          = Some (map (\<lambda>n. copy_Hash32B ZeroHash32B (f (of_nat n))) [0..<unat c], None)) \<and>
   (getTransferCountByRecipientAddress s a = Some (c, None) \<and> i < c \<and>
    ((\<exists>err. kv_Get s blockAddressTransferMappingNS (transferToPrefix @ a @ Uint64ToBytes i) = Inl err) \<or>
     kv_Get s blockAddressTransferMappingNS (transferToPrefix @ a @ Uint64ToBytes i) = Inr [])
      \<longrightarrow> (\<exists>e. getTransfersByRecipientAddress s a = Some ([], Some e)))"
    by blast
  from c1 c2 have cs: "(kv_Get s blockAddressTransferCountMappingNS (transferFromPrefix @ a) = Inr w \<and> Uint64 w = Some c
      \<longrightarrow> getTransferCountBySenderAddress s a = Some (c, None)) \<and>
   (kv_Get s blockAddressTransferCountMappingNS (transferToPrefix @ a) = Inr w \<and> Uint64 w = Some c
      \<longrightarrow> getTransferCountByRecipientAddress s a = Some (c, None))"
    by blast
  from e1 e2 have es: "(kv_Get s blockAddressTransferCountMappingNS (transferFromPrefix @ a) = Inl err
      \<longrightarrow> getTransferCountBySenderAddress s a = Some (0, None)
          \<and> getTransfersBySenderAddress s a = Some ([], None)) \<and>
   (kv_Get s blockAddressTransferCountMappingNS (transferToPrefix @ a) = Inl err
      \<longrightarrow> getTransferCountByRecipientAddress s a = Some (0, None)
          \<and> getTransfersByRecipientAddress s a = Some ([], None))"
    by blast
  show ?thesis
    by (intro conjI main [THEN conjunct1] main [THEN conjunct2, THEN conjunct1]
        main [THEN conjunct2, THEN conjunct2, THEN conjunct1]
        main [THEN conjunct2, THEN conjunct2, THEN conjunct2] pad
        cs [THEN conjunct1] cs [THEN conjunct2] es [THEN conjunct1] es [THEN conjunct2])
qed

lemma count_short_entry:
  "getTransferCountBySenderAddress short_entry_store [65] = Some (1, None)"
  "getTransferCountByRecipientAddress short_entry_store [65] = Some (1, None)"
  "getTransferCountByRecipientAddress short_entry_store [66] = Some (1, None)"
  "getTransferCountBySenderAddress gap_index_store [65] = Some (2, None)"
  by (simp_all add: getTransferCountBySenderAddress_def getTransferCountByRecipientAddress_def
      kv_Get_short_entry kv_Get_gap_index)

theorem getTransfers_enumeration_witness:
  "getTransfersBySenderAddress short_entry_store [65]
     = Some ([copy_Hash32B ZeroHash32B (replicate 7 1)], None) \<and>
   (\<exists>e. getTransfersBySenderAddress gap_index_store [65] = Some ([], Some e)) \<and>
   getTransfersByRecipientAddress short_entry_store [65]
     = Some ([copy_Hash32B ZeroHash32B (replicate 32 7)], None) \<and>
   (\<exists>e. getTransfersByRecipientAddress short_entry_store [66] = Some ([], Some e)) \<and>
   getTransferCountBySenderAddress short_entry_store [65] = Some (1, None) \<and>
   getTransferCountByRecipientAddress short_entry_store [65] = Some (1, None) \<and>
   kv_data unreadable_counts_store (blockAddressTransferCountMappingNS, transferFromPrefix @ [65])
     = Some (Uint64ToBytes 5) \<and>
   getTransfersBySenderAddress unreadable_counts_store [65] = Some ([], None) \<and>
   getTransfersByRecipientAddress unreadable_counts_store [65] = Some ([], None)"
proof -
  have w1: "i < (1 :: 64 word) \<longleftrightarrow> i = 0" for i
    by (simp add: word_less_1)
  note t1 = getTransfers_enumeration
    [of short_entry_store "[65]" 1 "\<lambda>_. replicate 7 1" 0 "[]" "Uint64ToBytes 1" ErrIO]
  note t2 = getTransfers_enumeration
    [of gap_index_store "[65]" 2 "\<lambda>_. []" 1 "[]" "Uint64ToBytes 2" ErrIO]
  note t3 = getTransfers_enumeration
    [of short_entry_store "[65]" 1 "\<lambda>_. replicate 32 7" 0 "[]" "Uint64ToBytes 1" ErrIO]
  note t4 = getTransfers_enumeration
    [of short_entry_store "[66]" 1 "\<lambda>_. []" 0 "[]" "Uint64ToBytes 1" ErrIO]
  note t5 = getTransfers_enumeration
    [of unreadable_counts_store "[65]" 0 "\<lambda>_. []" 0 "[]" "[]" ErrIO]
  have c65: "getTransferCountBySenderAddress short_entry_store [65] = Some (1, None)"
    "getTransferCountByRecipientAddress short_entry_store [65] = Some (1, None)"
    using t1 by (simp_all add: kv_Get_short_entry)
  have "getTransfersBySenderAddress short_entry_store [65]
     = Some ([copy_Hash32B ZeroHash32B (replicate 7 1)], None)"
    using t1 by (simp add: count_short_entry kv_Get_short_entry w1)
  moreover have "\<exists>e. getTransfersBySenderAddress gap_index_store [65] = Some ([], Some e)"
    using t2 by (simp add: count_short_entry kv_Get_gap_index)
  moreover have "getTransfersByRecipientAddress short_entry_store [65]
     = Some ([copy_Hash32B ZeroHash32B (replicate 32 7)], None)"
    using t3 by (simp add: count_short_entry kv_Get_short_entry w1)
  moreover have "\<exists>e. getTransfersByRecipientAddress short_entry_store [66] = Some ([], Some e)"
    using t4 by (simp add: count_short_entry kv_Get_short_entry)
  moreover have "kv_data unreadable_counts_store
      (blockAddressTransferCountMappingNS, transferFromPrefix @ [65]) = Some (Uint64ToBytes 5)"
    by (simp add: unreadable_counts_store_def empty_store_def)
  moreover have "getTransfersBySenderAddress unreadable_counts_store [65] = Some ([], None)"
    "getTransfersByRecipientAddress unreadable_counts_store [65] = Some ([], None)"
    using t5 by (simp_all add: kv_Get_unreadable)
  ultimately show ?thesis
    using c65 by blast
qed


end
